theory Spec2Isabelle
  imports Complex_Main "HOL-Library.Multiset" "HOL-Library.List_Lexorder" "HOL-Library.Char_ord"
begin

section \<open>Raincloud plots: the data model\<close>

text \<open>
  The development follows \<^verbatim>\<open>src/mpl_ext/raincloud/_raincloud.py\<close>: the two entry points
  \<^verbatim>\<open>pyplot_cloud\<close> and \<^verbatim>\<open>pyplot_raincloud\<close>. Numbers are modelled as \<^typ>\<open>real\<close>,
  category labels and column names as \<^typ>\<open>string\<close> (ordered lexicographically by character
  code, as Python orders \<^verbatim>\<open>str\<close>).
\<close>

subsection \<open>Errors\<close>

text \<open>
  Every \<^verbatim>\<open>raise\<close> of the source is a constructor. The \<^verbatim>\<open>ValueError\<close>s carry what the
  message interpolates: the out-of-bounds one carries \<^verbatim>\<open>err_vals\<close>, the dict of offending
  items. \<open>KeyError\<close> is a failed subscript (a dict, or a column of the table) and
  \<open>KeyError_label\<close> a row label that the index of the table does not hold,
  \<open>ZeroDivisionError\<close> a division by zero, \<open>IndexError\<close> a list subscript out of
  range, \<open>ValueError_max_empty\<close> is \<^verbatim>\<open>max()\<close> applied to an empty sequence and
  \<open>CallableError\<close> is whatever a callable \<^verbatim>\<open>group_order\<close> raises.
\<close>

datatype error =
    KeyError string
  | KeyError_label
  | ValueError_group_order string
  | ValueError_scale_clouds string
  | ValueError_out_of_bounds "(string \<times> real) list"
  | ValueError_box_kwargs string
  | ValueError_cloud_kwargs string
  | ValueError_max_empty
  | ZeroDivisionError
  | IndexError
  | CallableError string

text \<open>A comprehension whose body may raise: the first failure, in order, is the result.\<close>

fun mapE :: "('a \<Rightarrow> error + 'b) \<Rightarrow> 'a list \<Rightarrow> error + 'b list" where
  "mapE f [] = Inr []"
| "mapE f (x # xs) =
     (case f x of
        Inl e \<Rightarrow> Inl e
      | Inr y \<Rightarrow> (case mapE f xs of Inl e \<Rightarrow> Inl e | Inr ys \<Rightarrow> Inr (y # ys)))"

text \<open>Subscripting a dict that is held as a map: \<^verbatim>\<open>d[k]\<close>.\<close>

definition subscript :: "(string \<rightharpoonup> 'v) \<Rightarrow> string \<Rightarrow> error + 'v" where
  "subscript d k = (case d k of None \<Rightarrow> Inl (KeyError k) | Some v \<Rightarrow> Inr v)"

subsection \<open>The table\<close>

text \<open>
  A \<^verbatim>\<open>DataFrame\<close> with \<open>nrows\<close> rows. A row is known by its position; \<open>row_index\<close>
  gives the index label of the row at a position (labels of any type \<open>'l\<close>, which may
  repeat), and a column is a function from the row position to the cell, so that all
  columns have the same number of rows by construction. Only numeric columns (the data)
  and string columns (the categories) occur.
\<close>

record 'l dataframe =
  nrows :: nat
  row_index :: "nat \<Rightarrow> 'l"
  numeric :: "string \<rightharpoonup> (nat \<Rightarrow> real)"
  categorical :: "string \<rightharpoonup> (nat \<Rightarrow> string)"

text \<open>
  \<^verbatim>\<open>df.loc[idx_vals, col]\<close> selects by label: for every label of \<open>idx_vals\<close>, in order,
  the cells of column \<open>col\<close> on all the rows that carry this label, in stored order. A
  label that no row carries raises.
\<close>

definition loc :: "'l dataframe \<Rightarrow> 'l list \<Rightarrow> string \<Rightarrow> error + real list" where
  "loc df idx_vals col =
     (case numeric df col of
        None \<Rightarrow> Inl (KeyError col)
      | Some c \<Rightarrow>
          if list_all (\<lambda>l. l \<in> set (map (row_index df) [0..<nrows df])) idx_vals
          then Inr (concat (map (\<lambda>l. map c (filter (\<lambda>i. row_index df i = l) [0..<nrows df]))
                              idx_vals))
          else Inl KeyError_label)"

text \<open>\<^verbatim>\<open>df[col].tolist()\<close>: the whole column, in stored order.\<close>

definition column_tolist :: "'l dataframe \<Rightarrow> string \<Rightarrow> error + real list" where
  "column_tolist df col =
     (case numeric df col of
        None \<Rightarrow> Inl (KeyError col)
      | Some c \<Rightarrow> Inr (map c [0..<nrows df]))"

text \<open>The distinct elements of a list in order of first occurrence.\<close>

fun discovery :: "'a list \<Rightarrow> 'a list" where
  "discovery [] = []"
| "discovery (x # xs) = x # discovery (filter (\<lambda>y. y \<noteq> x) xs)"

text \<open>
  \<^verbatim>\<open>df.groupby(by = group_by, sort = False).groups.items()\<close>: each category with the
  index labels of its rows, the categories in order of first appearance and the rows
  of each in stored order.
\<close>

definition groupby_groups :: "'l dataframe \<Rightarrow> string \<Rightarrow> error + (string \<times> 'l list) list" where
  "groupby_groups df group_by =
     (case categorical df group_by of
        None \<Rightarrow> Inl (KeyError group_by)
      | Some c \<Rightarrow>
          Inr (map (\<lambda>cat. (cat, map (row_index df) (filter (\<lambda>i. c i = cat) [0..<nrows df])))
                 (discovery (map c [0..<nrows df]))))"

text \<open>A \<^verbatim>\<open>Series\<close>: its name, its index and its values.\<close>

record 'l series =
  name :: string
  index :: "'l list"
  vals :: "real list"

subsection \<open>Sorting as Python does\<close>

text \<open>
  \<^verbatim>\<open>sorted(xs, key = f, reverse = r)\<close> is stable; with \<^verbatim>\<open>reverse\<close> the list is reversed,
  sorted by the same stable sort and reversed again, so elements with equal keys keep
  their original order in both directions.
\<close>

definition sorted_py :: "('a \<Rightarrow> 'k::linorder) \<Rightarrow> bool \<Rightarrow> 'a list \<Rightarrow> 'a list" where
  "sorted_py f reverse xs =
     (if reverse then rev (sort_key f (rev xs)) else sort_key f xs)"

text \<open>
  The key function is called once on every element before any comparison, and may
  raise.
\<close>

definition sorted_key :: "('a \<Rightarrow> error + 'k::linorder) \<Rightarrow> bool \<Rightarrow> 'a list \<Rightarrow> error + 'a list" where
  "sorted_key key reverse xs =
     (case mapE key xs of
        Inl e \<Rightarrow> Inl e
      | Inr ks \<Rightarrow> Inr (map snd (sorted_py fst reverse (zip ks xs))))"

subsection \<open>Group extraction\<close>

text \<open>
  The \<^verbatim>\<open>group_order\<close> argument, by the tests the source applies to it in this order:
  \<^verbatim>\<open>None\<close>, a dict, a value equal to \<^verbatim>\<open>group_by\<close> (a column name), a callable, anything
  else (given by its printed form).
\<close>

datatype ('l, 'k) group_order =
    GoNone
  | GoDict "string \<rightharpoonup> 'k"
  | GoName string
  | GoCallable "'l series \<Rightarrow> error + 'k"
  | GoOther string

text \<open>The generator of the named series, one per category.\<close>

definition group_series :: "'l dataframe \<Rightarrow> string \<Rightarrow> string \<Rightarrow> error + 'l series list" where
  "group_series df col group_by =
     (case groupby_groups df group_by of
        Inl e \<Rightarrow> Inl e
      | Inr gs \<Rightarrow>
          mapE (\<lambda>(cat, idx_vals).
                  case loc df idx_vals col of
                    Inl e \<Rightarrow> Inl e
                  | Inr vs \<Rightarrow> Inr \<lparr>name = cat, index = idx_vals, vals = vs\<rparr>) gs)"

text \<open>The dict comprehension \<^verbatim>\<open>{cat: df.loc[idx_vals, col].tolist() ...}\<close>.\<close>

definition group_dict :: "'l dataframe \<Rightarrow> string \<Rightarrow> string \<Rightarrow> error + (string \<times> real list) list" where
  "group_dict df col group_by =
     (case groupby_groups df group_by of
        Inl e \<Rightarrow> Inl e
      | Inr gs \<Rightarrow>
          mapE (\<lambda>(cat, idx_vals).
                  case loc df idx_vals col of
                    Inl e \<Rightarrow> Inl e
                  | Inr vs \<Rightarrow> Inr (cat, vs)) gs)"

text \<open>
  The first stage of both entry points (lines 136 to 188 and 410 to 462, which are the
  same text): the label names and the data lists.
\<close>

definition extract_groups ::
  "'l dataframe \<Rightarrow> string \<Rightarrow> string option \<Rightarrow> ('l, 'k::linorder) group_order \<Rightarrow> bool
     \<Rightarrow> error + (string list \<times> real list list)" where
  "extract_groups df col group_by group_order reverse =
     (case group_by of
        None \<Rightarrow>
          (case column_tolist df col of
             Inl e \<Rightarrow> Inl e
           | Inr vs \<Rightarrow> Inr ([col], [vs]))
      | Some g \<Rightarrow>
          (case group_order of
             GoNone \<Rightarrow>
               (case group_dict df col g of
                  Inl e \<Rightarrow> Inl e
                | Inr plot_data \<Rightarrow> Inr (map fst plot_data, map snd plot_data))
           | GoDict d \<Rightarrow>
               (case group_series df col g of
                  Inl e \<Rightarrow> Inl e
                | Inr ss \<Rightarrow>
                    (case sorted_key (\<lambda>el. subscript d (name el)) reverse ss of
                       Inl e \<Rightarrow> Inl e
                     | Inr plot_data \<Rightarrow> Inr (map name plot_data, map vals plot_data)))
           | GoName n \<Rightarrow>
               (if n = g then
                  (case group_dict df col g of
                     Inl e \<Rightarrow> Inl e
                   | Inr plot_data \<Rightarrow>
                       (let label_names = sorted_py (\<lambda>l. l) reverse (map fst plot_data) in
                        case mapE (subscript (map_of plot_data)) label_names of
                          Inl e \<Rightarrow> Inl e
                        | Inr ds \<Rightarrow> Inr (label_names, ds)))
                else Inl (ValueError_group_order n))
           | GoCallable f \<Rightarrow>
               (case group_series df col g of
                  Inl e \<Rightarrow> Inl e
                | Inr ss \<Rightarrow>
                    (case sorted_key f reverse ss of
                       Inl e \<Rightarrow> Inl e
                     | Inr plot_data \<Rightarrow> Inr (map name plot_data, map vals plot_data)))
           | GoOther v \<Rightarrow> Inl (ValueError_group_order v)))"

subsection \<open>Cloud scalars\<close>

text \<open>
  The \<^verbatim>\<open>scale_clouds\<close> argument, by the tests the source applies to it in this order:
  \<^verbatim>\<open>None\<close>, the string \<^verbatim>\<open>'max'\<close>, a dict, anything else (given by its printed form).
  The dict is held as the list of its items, in their order; a dict has every key
  once, and \<^verbatim>\<open>d[k]\<close> is \<open>map_of\<close> on the items.
\<close>

datatype scale_clouds =
    ScNone
  | ScMax
  | ScDict "(string \<times> real) list"
  | ScOther string

text \<open>
  \<^verbatim>\<open>max(xs, key = f)\<close>: the first element whose key is largest; an empty argument
  raises.
\<close>

fun max_key :: "('a \<Rightarrow> nat) \<Rightarrow> 'a list \<Rightarrow> error + 'a" where
  "max_key f [] = Inl ValueError_max_empty"
| "max_key f (x # xs) = Inr (foldl (\<lambda>best y. if f best < f y then y else best) x xs)"

text \<open>\<^verbatim>\<open>a / b\<close> on two lengths: true division, which raises when \<open>b\<close> is zero.\<close>

definition true_div :: "nat \<Rightarrow> nat \<Rightarrow> error + real" where
  "true_div a b = (if b = 0 then Inl ZeroDivisionError else Inr (real a / real b))"

text \<open>The test \<^verbatim>\<open>v < 0 or v > 1\<close> of the dict comprehension that builds \<^verbatim>\<open>err_vals\<close>.\<close>

definition out_of_bounds :: "string \<times> real \<Rightarrow> bool" where
  "out_of_bounds kv = (snd kv < 0 \<or> snd kv > 1)"

text \<open>The second stage (lines 190 to 215 and 464 to 489, the same text).\<close>

definition get_scalars ::
  "scale_clouds \<Rightarrow> string list \<Rightarrow> real list list \<Rightarrow> error + real list" where
  "get_scalars scale_clouds label_names plot_data =
     (case scale_clouds of
        ScNone \<Rightarrow> Inr (map (\<lambda>_. 1) plot_data)
      | ScMax \<Rightarrow>
          (case max_key length plot_data of
             Inl e \<Rightarrow> Inl e
           | Inr longest \<Rightarrow>
               (let scalars = length longest in
                mapE (\<lambda>el. if length el = scalars then Inr 1
                            else true_div (length el) scalars) plot_data))
      | ScDict d \<Rightarrow>
          (let err_vals = filter out_of_bounds d in
           if length err_vals \<noteq> 0 then Inl (ValueError_out_of_bounds err_vals)
           else mapE (subscript (map_of d)) label_names)
      | ScOther v \<Rightarrow> Inl (ValueError_scale_clouds v))"

subsection \<open>Keyword arguments\<close>

text \<open>
  The value of a keyword argument: a flag, a number, a string, the label names, the
  data lists, or a nested dict such as \<^verbatim>\<open>dict(color = 'Black')\<close>.
\<close>

datatype kwval =
    KBool bool
  | KNum real
  | KStr string
  | KLabels "string list"
  | KData "real list list"
  | KDict "(string \<times> kwval) list"

type_synonym kwargs = "string \<rightharpoonup> kwval"

text \<open>
  \<^verbatim>\<open>box_kwargs\<close> and \<^verbatim>\<open>cloud_kwargs\<close>: \<^verbatim>\<open>None\<close>, a dict, or anything else (given by its
  printed form).
\<close>

datatype kwargs_arg =
    KwNone
  | KwDict kwargs
  | KwOther string

text \<open>
  The keyword arguments of the call of \<^verbatim>\<open>ax.boxplot\<close> (lines 218 to 254 and 492 to
  528, the same text). In \<^verbatim>\<open>{**a, **b, **c}\<close> a later dict wins, which is \<open>a ++ b ++ c\<close>.
\<close>

definition boxplot_kwargs ::
  "kwargs_arg \<Rightarrow> string list \<Rightarrow> real list list \<Rightarrow> bool \<Rightarrow> error + kwargs" where
  "boxplot_kwargs box_kwargs label_names plot_data vert =
     (case box_kwargs of
        KwNone \<Rightarrow>
          Inr [''labels'' \<mapsto> KLabels label_names,
               ''x'' \<mapsto> KData plot_data,
               ''vert'' \<mapsto> KBool vert,
               ''widths'' \<mapsto> KNum 0.2,
               ''showfliers'' \<mapsto> KBool False,
               ''showmeans'' \<mapsto> KBool True,
               ''meanline'' \<mapsto> KBool True,
               ''medianprops'' \<mapsto> KDict [(''color'', KStr ''Black'')],
               ''boxprops'' \<mapsto> KDict [(''color'', KStr ''Black'')]]
      | KwDict kw \<Rightarrow>
          Inr ([''widths'' \<mapsto> KNum 0.2,
                ''showfliers'' \<mapsto> KBool False,
                ''showmeans'' \<mapsto> KBool True,
                ''meanline'' \<mapsto> KBool True,
                ''medianprops'' \<mapsto> KDict [(''color'', KStr ''Black'')],
                ''boxprops'' \<mapsto> KDict [(''color'', KStr ''Black'')]]
               ++ kw
               ++ [''labels'' \<mapsto> KLabels label_names,
                   ''x'' \<mapsto> KData plot_data,
                   ''vert'' \<mapsto> KBool vert])
      | KwOther v \<Rightarrow> Inl (ValueError_box_kwargs v))"

text \<open>The keyword arguments of \<^verbatim>\<open>ax.violinplot\<close> in \<^verbatim>\<open>pyplot_cloud\<close> (lines 257 to 287).\<close>

definition cloud_violinplot_kwargs ::
  "kwargs_arg \<Rightarrow> real list list \<Rightarrow> bool \<Rightarrow> error + kwargs" where
  "cloud_violinplot_kwargs cloud_kwargs plot_data vert =
     (case cloud_kwargs of
        KwNone \<Rightarrow>
          Inr [''dataset'' \<mapsto> KData plot_data,
               ''vert'' \<mapsto> KBool vert,
               ''showmeans'' \<mapsto> KBool False,
               ''showmedians'' \<mapsto> KBool False,
               ''showextrema'' \<mapsto> KBool False,
               ''widths'' \<mapsto> KNum 1.2]
      | KwDict kw \<Rightarrow>
          Inr ([''showmeans'' \<mapsto> KBool False,
                ''showmedians'' \<mapsto> KBool False,
                ''showextrema'' \<mapsto> KBool False,
                ''widths'' \<mapsto> KNum 1.2]
               ++ kw
               ++ [''dataset'' \<mapsto> KData plot_data,
                   ''vert'' \<mapsto> KBool vert])
      | KwOther v \<Rightarrow> Inl (ValueError_cloud_kwargs v))"

text \<open>The same in \<^verbatim>\<open>pyplot_raincloud\<close> (lines 531 to 557).\<close>

definition raincloud_violinplot_kwargs ::
  "kwargs_arg \<Rightarrow> real list list \<Rightarrow> bool \<Rightarrow> error + kwargs" where
  "raincloud_violinplot_kwargs cloud_kwargs plot_data vert =
     (case cloud_kwargs of
        KwNone \<Rightarrow>
          Inr [''dataset'' \<mapsto> KData plot_data,
               ''vert'' \<mapsto> KBool vert]
      | KwDict kw \<Rightarrow>
          Inr ([''showmeans'' \<mapsto> KBool False,
                ''showmedians'' \<mapsto> KBool False,
                ''showextrema'' \<mapsto> KBool False,
                ''widths'' \<mapsto> KNum 1.2]
               ++ kw
               ++ [''dataset'' \<mapsto> KData plot_data,
                   ''vert'' \<mapsto> KBool vert])
      | KwOther v \<Rightarrow> Inl (ValueError_cloud_kwargs v))"

subsection \<open>The plotting surface\<close>

text \<open>
  One violin body: the vertices of its first path, a row per vertex with column 0
  and column 1, and its face colour.
\<close>

record body =
  vertices :: "(real \<times> real) list"
  facecolor :: string

text \<open>
  What the program does not define is a parameter: the bodies that \<^verbatim>\<open>ax.violinplot\<close>
  returns for given keyword arguments (\<^verbatim>\<open>vp['bodies']\<close>), and the draws of
  \<^verbatim>\<open>numpy.random.uniform\<close> (for the call made at position \<open>idx\<close>, the draws of the
  size asked for).
\<close>

record axes =
  violin_bodies :: "kwargs \<Rightarrow> body list"

type_synonym uniform = "nat \<Rightarrow> nat \<Rightarrow> real list"

text \<open>The drawing calls made on the axes, recorded in order.\<close>

datatype draw_call =
    Boxplot kwargs
  | Violinplot kwargs
  | Scatter "real list" "real list" real string

subsection \<open>The half-violin transform\<close>

text \<open>
  Lines 292 to 301 (and 564 to 573) on one entry of column 1:
  \<^verbatim>\<open>scale * where(v <= idx + 1, 0, v - idx - 1) + idx + 1\<close>.
\<close>

definition half_violin_value :: "nat \<Rightarrow> real \<Rightarrow> real \<Rightarrow> real" where
  "half_violin_value idx scale v =
     scale * (if v \<le> real idx + 1 then 0 else v - real idx - 1) + real idx + 1"

definition half_violin :: "nat \<Rightarrow> real \<Rightarrow> body \<Rightarrow> body" where
  "half_violin idx scale b =
     b\<lparr>vertices := map (\<lambda>(x, y). (x, half_violin_value idx scale y)) (vertices b)\<rparr>"

text \<open>
  The loop over \<^verbatim>\<open>zip(count(), scalars, vp['bodies'])\<close> of \<^verbatim>\<open>pyplot_cloud\<close>: it stops
  with the shorter of the two lists, and bodies beyond it stay as drawn.
\<close>

definition cloud_loop :: "real list \<Rightarrow> body list \<Rightarrow> body list" where
  "cloud_loop scalars bodies =
     map (\<lambda>(idx, scale, b). half_violin idx scale b)
         (zip [0..<length bodies] (zip scalars bodies))
     @ drop (length scalars) bodies"

text \<open>
  The loop of \<^verbatim>\<open>pyplot_raincloud\<close>, which also scatters the data of each position:
  the bodies already rewritten and the calls made are carried along, and
  \<^verbatim>\<open>plot_data[idx]\<close> raises when there is no such position.
\<close>

fun raincloud_loop ::
  "uniform \<Rightarrow> real list list \<Rightarrow> (nat \<times> real \<times> body) list
     \<Rightarrow> draw_call list \<times> (error + body list)" where
  "raincloud_loop uniform plot_data [] = ([], Inr [])"
| "raincloud_loop uniform plot_data ((idx, scale, b) # rest) =
     (let b' = half_violin idx scale b in
      if idx < length plot_data then
        (let data = plot_data ! idx;
             jitter = map (\<lambda>u. u + (real idx + 0.75)) (uniform idx (length data));
             sc = Scatter data jitter 0.3 (facecolor b')
         in case raincloud_loop uniform plot_data rest of
              (calls, Inl e) \<Rightarrow> (sc # calls, Inl e)
            | (calls, Inr bs) \<Rightarrow> (sc # calls, Inr (b' # bs)))
      else ([], Inl IndexError))"

subsection \<open>The entry points\<close>

text \<open>
  Each entry point gives the drawing calls it made on the axes, in order, and either
  the error it raised or the bodies of the violin plot as it leaves them. An error of
  one of the first three stages comes before any drawing call; a \<^verbatim>\<open>cloud_kwargs\<close> that
  is no dict is found after the box plot is drawn.
\<close>

definition pyplot_cloud ::
  "'l dataframe \<Rightarrow> string \<Rightarrow> axes \<Rightarrow> string option \<Rightarrow> ('l, 'k::linorder) group_order \<Rightarrow> bool
     \<Rightarrow> scale_clouds \<Rightarrow> bool \<Rightarrow> kwargs_arg \<Rightarrow> kwargs_arg
     \<Rightarrow> draw_call list \<times> (error + body list)" where
  "pyplot_cloud df col ax group_by group_order reverse scale_clouds vert box_kwargs cloud_kwargs =
     (case extract_groups df col group_by group_order reverse of
        Inl e \<Rightarrow> ([], Inl e)
      | Inr (label_names, plot_data) \<Rightarrow>
          (case get_scalars scale_clouds label_names plot_data of
             Inl e \<Rightarrow> ([], Inl e)
           | Inr scalars \<Rightarrow>
               (case boxplot_kwargs box_kwargs label_names plot_data vert of
                  Inl e \<Rightarrow> ([], Inl e)
                | Inr bp \<Rightarrow>
                    (case cloud_violinplot_kwargs cloud_kwargs plot_data vert of
                       Inl e \<Rightarrow> ([Boxplot bp], Inl e)
                     | Inr vp \<Rightarrow>
                         ([Boxplot bp, Violinplot vp],
                          Inr (cloud_loop scalars (violin_bodies ax vp)))))))"

definition pyplot_raincloud ::
  "uniform \<Rightarrow> 'l dataframe \<Rightarrow> string \<Rightarrow> axes \<Rightarrow> string option \<Rightarrow> ('l, 'k::linorder) group_order
     \<Rightarrow> bool \<Rightarrow> scale_clouds \<Rightarrow> bool \<Rightarrow> kwargs_arg \<Rightarrow> kwargs_arg
     \<Rightarrow> draw_call list \<times> (error + body list)" where
  "pyplot_raincloud uniform df col ax group_by group_order reverse scale_clouds vert
       box_kwargs cloud_kwargs =
     (case extract_groups df col group_by group_order reverse of
        Inl e \<Rightarrow> ([], Inl e)
      | Inr (label_names, plot_data) \<Rightarrow>
          (case get_scalars scale_clouds label_names plot_data of
             Inl e \<Rightarrow> ([], Inl e)
           | Inr scalars \<Rightarrow>
               (case boxplot_kwargs box_kwargs label_names plot_data vert of
                  Inl e \<Rightarrow> ([], Inl e)
                | Inr bp \<Rightarrow>
                    (case raincloud_violinplot_kwargs cloud_kwargs plot_data vert of
                       Inl e \<Rightarrow> ([Boxplot bp], Inl e)
                     | Inr vp \<Rightarrow>
                         (let bodies = violin_bodies ax vp in
                          case raincloud_loop uniform plot_data
                                 (zip [0..<length bodies] (zip scalars bodies)) of
                            (calls, Inl e) \<Rightarrow> (Boxplot bp # Violinplot vp # calls, Inl e)
                          | (calls, Inr bs) \<Rightarrow>
                              (Boxplot bp # Violinplot vp # calls,
                               Inr (bs @ drop (length scalars) bodies)))))))"

text \<open>The keyword arguments of the violin calls among recorded drawing calls.\<close>

fun violin_calls :: "draw_call list \<Rightarrow> kwargs list" where
  "violin_calls [] = []"
| "violin_calls (Violinplot kw # cs) = kw # violin_calls cs"
| "violin_calls (c # cs) = violin_calls cs"

subsection \<open>Example inputs\<close>

text \<open>
  The table of the ordering example: a group column \<^verbatim>\<open>g\<close> holding b, b, a, a, a and a
  value column \<^verbatim>\<open>x\<close> holding 1 to 5, under the default index 0 to 4.
\<close>

definition example_table :: "nat dataframe" where
  "example_table = \<lparr>nrows = 5,
     row_index = (\<lambda>i. i),
     numeric = [''x'' \<mapsto> (\<lambda>i. [1, 2, 3, 4, 5] ! i)],
     categorical = [''g'' \<mapsto> (\<lambda>i. [''b'', ''b'', ''a'', ''a'', ''a''] ! i)]\<rparr>"

text \<open>
  An axes that draws violins the way matplotlib lays them out: the violin of position
  \<open>i\<close> lies around the line \<open>i + 1\<close>, half a unit to either side, and its data run from
  0 to 4. A vertical violin (\<^verbatim>\<open>vert\<close> true, drawn with \<^verbatim>\<open>fill_betweenx\<close>) has the
  density on column 0 and the data on column 1; a horizontal one (drawn with
  \<^verbatim>\<open>fill_between\<close>) has the data on column 0 and the density on column 1.
\<close>

definition example_axes :: axes where
  "example_axes = \<lparr>violin_bodies = (\<lambda>kw. case kw ''dataset'' of
       Some (KData ds) \<Rightarrow>
         map (\<lambda>i. if kw ''vert'' = Some (KBool True)
                   then \<lparr>vertices = [(real i + 1 / 2, 0), (real i + 3 / 2, 4)],
                         facecolor = ''C0''\<rparr>
                   else \<lparr>vertices = [(0, real i + 1 / 2), (4, real i + 3 / 2)],
                         facecolor = ''C0''\<rparr>) [0..<length ds]
     | _ \<Rightarrow> [])\<rparr>"


text \<open>A source of draws that are all zero.\<close>

definition example_uniform :: uniform where
  "example_uniform idx n = replicate n 0"

text \<open>The four options that the documented defaults of the violin call set.\<close>

definition shown :: "kwargs \<Rightarrow> kwval option list" where
  "shown kw = [kw ''showmeans'', kw ''showmedians'', kw ''showextrema'', kw ''widths'']"

subsection \<open>Notions used to state the properties\<close>

text \<open>
  The coordinate of a vertex on the density axis of a violin: column 0 when the violin
  is vertical, column 1 when it is horizontal.
\<close>

definition density_coordinate :: "bool \<Rightarrow> real \<times> real \<Rightarrow> real" where
  "density_coordinate vert p = (if vert then fst p else snd p)"




text \<open>
  The sort keys of the groups are pairwise different: the ordinals an ordering dict
  gives to the categories, or the results of a callable on the series. The other
  modes have no keys that could tie (category names are distinct).
\<close>

definition distinct_keys ::
  "'l dataframe \<Rightarrow> string \<Rightarrow> string \<Rightarrow> ('l, 'k::linorder) group_order \<Rightarrow> bool" where
  "distinct_keys df col g group_order =
     (case group_series df col g of
        Inl e \<Rightarrow> True
      | Inr ss \<Rightarrow>
          (case group_order of
             GoDict d \<Rightarrow> distinct (map (\<lambda>el. subscript d (name el)) ss)
           | GoCallable f \<Rightarrow> distinct (map f ss)
           | _ \<Rightarrow> True))"

section \<open>Auxiliary facts\<close>

lemma mapE_Inr_iff: "mapE f xs = Inr ys \<longleftrightarrow> list_all2 (\<lambda>x y. f x = Inr y) xs ys"
proof (induction xs arbitrary: ys)
  case Nil
  then show ?case by auto
next
  case (Cons x xs)
  show ?case
  proof (cases ys)
    case Nil
    then show ?thesis by (simp split: sum.splits)
  next
    case (Cons y ys')
    then show ?thesis using Cons.IH [of ys'] by (auto split: sum.splits)
  qed
qed

lemma mapE_total: "(\<And>x. x \<in> set xs \<Longrightarrow> f x = Inr (g x)) \<Longrightarrow> mapE f xs = Inr (map g xs)"
  by (induction xs) auto

lemma foldl_longest:
  fixes f :: "'a \<Rightarrow> nat"
  shows "foldl (\<lambda>best y. if f best < f y then y else best) x xs \<in> set (x # xs) \<and>
   (\<forall>y \<in> set (x # xs). f y \<le> f (foldl (\<lambda>best y. if f best < f y then y else best) x xs))"
proof (induction xs arbitrary: x)
  case Nil
  then show ?case by simp
next
  case (Cons a xs)
  show ?case
    using Cons.IH [of "if f x < f a then a else x"]
    by (auto split: if_splits)
qed

lemma max_key_Inr:
  assumes "max_key f xs = Inr m"
  shows "m \<in> set xs" and "\<And>y. y \<in> set xs \<Longrightarrow> f y \<le> f m"
  using assms foldl_longest [of f] by (cases xs; auto)+

lemma max_key_nonempty: "xs \<noteq> [] \<Longrightarrow> \<exists>m. max_key f xs = Inr m"
  by (cases xs) auto

lemma max_key_length_Max:
  assumes "max_key length xs = Inr m"
  shows "length m = Max (set (map length xs))"
proof -
  have "length m \<in> set (map length xs)" using max_key_Inr(1) [OF assms] by simp
  moreover have "\<forall>k \<in> set (map length xs). k \<le> length m"
    using max_key_Inr(2) [OF assms] by auto
  ultimately show ?thesis by (intro Max_eqI [symmetric]) auto
qed

lemma scalars_of_longest:
  assumes m: "max_key length plot_data = Inr longest"
  shows "get_scalars ScMax label_names plot_data =
           Inr (map (\<lambda>g. if length g = length longest then 1
                          else real (length g) / real (length longest)) plot_data)"
proof -
  let ?m = "length longest"
  have "mapE (\<lambda>el. if length el = ?m then Inr 1 else true_div (length el) ?m) plot_data =
        Inr (map (\<lambda>g. if length g = ?m then 1 else real (length g) / real ?m) plot_data)"
  proof (rule mapE_total)
    fix x assume "x \<in> set plot_data"
    then have "length x \<le> ?m" by (rule max_key_Inr(2) [OF m])
    then show "(if length x = ?m then Inr 1 else true_div (length x) ?m) =
               Inr (if length x = ?m then 1 else real (length x) / real ?m)"
      by (auto simp: true_div_def)
  qed
  then show ?thesis by (simp add: get_scalars_def m Let_def)
qed

lemma mapE_subscript_find:
  "mapE (subscript m) ls =
     (case List.find (\<lambda>l. m l = None) ls of
        Some l \<Rightarrow> Inl (KeyError l)
      | None \<Rightarrow> Inr (map (\<lambda>l. the (m l)) ls))"
  by (induction ls) (auto simp: subscript_def split: option.splits sum.splits)

lemma get_scalars_out_of_bounds:
  assumes "kv \<in> set d" "snd kv < 0 \<or> snd kv > 1"
  shows "get_scalars (ScDict d) ls ds =
           Inl (ValueError_out_of_bounds (filter (\<lambda>(k, v). v < 0 \<or> v > 1) d))"
proof -
  have eq: "filter out_of_bounds d = filter (\<lambda>(k, v). v < 0 \<or> v > 1) d"
    by (rule filter_cong) (auto simp: out_of_bounds_def)
  have "filter out_of_bounds d \<noteq> []"
    using assms by (auto simp: filter_empty_conv out_of_bounds_def)
  then show ?thesis by (simp add: get_scalars_def Let_def eq)
qed

lemma entry_scalars_error:
  assumes "extract_groups df col group_by go reverse = Inr (ls, ds)"
      and "get_scalars sc ls ds = Inl e"
  shows "pyplot_cloud df col ax group_by go reverse sc vert bk ck = ([], Inl e)"
    and "pyplot_raincloud u df col ax group_by go reverse sc vert bk ck = ([], Inl e)"
  using assms by (simp_all add: pyplot_cloud_def pyplot_raincloud_def)

lemma entry_extract_error:
  assumes "extract_groups df col group_by go reverse = Inl e"
  shows "pyplot_cloud df col ax group_by go reverse sc vert bk ck = ([], Inl e)"
    and "pyplot_raincloud u df col ax group_by go reverse sc vert bk ck = ([], Inl e)"
  using assms by (simp_all add: pyplot_cloud_def pyplot_raincloud_def)















lemma sort_key_rev:
  assumes "inj_on f (set xs)"
  shows "sort_key f (rev xs) = sort_key f xs"
  by (rule sort_key_inj_key_eq) (use assms in simp_all)

lemma sort_rev: "sort_key (\<lambda>l. l) (rev xs) = sort_key (\<lambda>l. l) xs"
  by (rule properties_for_sort) simp_all

lemma mapE_rev: "mapE f xs = Inr ys \<Longrightarrow> mapE f (rev xs) = Inr (rev ys)"
  by (simp add: mapE_Inr_iff)

lemma sorted_key_reverse:
  assumes d: "distinct (map key xs)" and ok: "sorted_key key False xs = Inr ys"
  shows "sorted_key key True xs = Inr (rev ys)"
proof -
  obtain ks where ks: "mapE key xs = Inr ks"
      and ys: "ys = map snd (sort_key fst (zip ks xs))"
    using ok by (auto simp: sorted_key_def sorted_py_def split: sum.splits)
  have l2: "list_all2 (\<lambda>x k. key x = Inr k) xs ks" using ks by (simp add: mapE_Inr_iff)
  then have len: "length ks = length xs" by (simp add: list_all2_lengthD)
  have "map key xs = map Inr ks"
    using l2 by (induction rule: list_all2_induct) auto
  then have "distinct ks" using d by (simp add: distinct_map)
  then have "distinct (map fst (zip ks xs))" using len by simp
  then have "inj_on fst (set (zip ks xs))" by (simp add: distinct_map)
  then have "sort_key fst (rev (zip ks xs)) = sort_key fst (zip ks xs)" by (rule sort_key_rev)
  then show ?thesis
    by (simp add: sorted_key_def sorted_py_def ks ys rev_map)
qed

section \<open>Scaling relative to the largest group\<close>

text \<open>
  Claim C5. With \<^verbatim>\<open>scale_clouds = 'max'\<close> and at least one group, where \<open>m\<close> is the size
  of the largest group, the scalars are computed without error and the scalar of a
  group \<open>g\<close> is 1 if its size is \<open>m\<close> and its size divided by \<open>m\<close> otherwise. Groups of
  sizes 200, 200 and 50 get 1, 1 and 0.25 (the witness below).
\<close>

theorem max_scalars:
  assumes "plot_data \<noteq> []"
  shows "get_scalars ScMax label_names plot_data =
           Inr (map (\<lambda>g. if length g = Max (set (map length plot_data)) then 1
                          else real (length g) / real (Max (set (map length plot_data))))
                  plot_data)"
proof -
  obtain longest where m: "max_key length plot_data = Inr longest"
    using max_key_nonempty [OF assms] by blast
  show ?thesis
    using scalars_of_longest [OF m] unfolding max_key_length_Max [OF m] .
qed

theorem max_scalars_witness:
  "[replicate 200 0, replicate 200 0, replicate 50 (0::real)] \<noteq> [] \<and>
   get_scalars ScMax [''a'', ''b'', ''c'']
     [replicate 200 0, replicate 200 0, replicate 50 0] = Inr [1, 1, 0.25]"
  using max_scalars [of "[replicate 200 0, replicate 200 0, replicate 50 0]"
      "[''a'', ''b'', ''c'']"]
  by simp

text \<open>
  Claim C10. With \<^verbatim>\<open>scale_clouds = 'max'\<close> and at least one group, \<^verbatim>\<open>max\<close> returns a
  longest group; a group is divided by the largest size \<open>m\<close> only when its own size
  differs from \<open>m\<close>, and then \<open>m\<close> is positive and the division returns; so the stage
  never raises \<open>ZeroDivisionError\<close>, and when every group is empty every scalar is 1.
\<close>

theorem max_division_safe:
  assumes "plot_data \<noteq> []"
  shows "\<exists>longest. max_key length plot_data = Inr longest \<and>
           (\<forall>el \<in> set plot_data. length el \<noteq> length longest \<longrightarrow>
              0 < length longest \<and>
              true_div (length el) (length longest)
                = Inr (real (length el) / real (length longest))) \<and>
           get_scalars ScMax label_names plot_data \<noteq> Inl ZeroDivisionError \<and>
           ((\<forall>el \<in> set plot_data. el = []) \<longrightarrow>
              get_scalars ScMax label_names plot_data = Inr (map (\<lambda>_. 1) plot_data))"
proof -
  obtain longest where m: "max_key length plot_data = Inr longest"
    using max_key_nonempty [OF assms] by blast
  have pos: "0 < length longest" if "el \<in> set plot_data" "length el \<noteq> length longest" for el
    using max_key_Inr(2) [OF m that(1)] that(2) by (cases longest) simp_all
  have res: "get_scalars ScMax label_names plot_data =
      Inr (map (\<lambda>g. if length g = length longest then 1
                     else real (length g) / real (length longest)) plot_data)"
    by (rule scalars_of_longest [OF m])
  have empty: "get_scalars ScMax label_names plot_data = Inr (map (\<lambda>_. 1) plot_data)"
    if "\<forall>el \<in> set plot_data. el = []"
  proof -
    have "longest = []" using max_key_Inr(1) [OF m] that by blast
    then show ?thesis using that by (simp add: res cong: map_cong)
  qed
  show ?thesis
    using m pos res empty by (auto simp: true_div_def)
qed

theorem max_division_safe_witness:
  "[[], [], []] \<noteq> ([] :: real list list) \<and>
   list_all (\<lambda>el. el = ([] :: real list)) [[], [], []] \<and>
   get_scalars ScMax [''a'', ''b'', ''c''] [[], [], []] = Inr [1, 1, 1] \<and>
   get_scalars ScMax [''a'', ''b''] [[2, 3], [5]] = Inr [1, 1 / 2]"
  using max_division_safe [of "[[], [], []]" "[''a'', ''b'', ''c'']"]
    max_division_safe [of "[[2, 3], [5]]" "[''a'', ''b'']"]
  by (simp add: get_scalars_def true_div_def)

section \<open>The half-violin transform\<close>

text \<open>
  Claim C3, evaluated on the ungrouped example with scale factor 0.5, for both values
  of \<^verbatim>\<open>vert\<close>. The arithmetic is the claimed one: at position \<open>i\<close> with scale \<open>s\<close> a value
  \<open>v\<close> becomes the baseline \<open>i + 1\<close> when \<open>v \<le> i + 1\<close> and \<open>(i + 1) + s * (v - (i + 1))\<close>
  otherwise. But the loop applies it to column 1 of every vertex and leaves column 0
  as drawn, whatever \<^verbatim>\<open>vert\<close> is. For a horizontal violin column 1 is the density axis
  and the density coordinates 0.5 and 1.5 become 1 and 1.25, as claimed. For a vertical
  violin the density axis is column 0: the density coordinates stay 0.5 and 1.5, where
  the claim gives 1 and 1.25, and the data coordinates 0 and 4 are rewritten to 1 and
  2.5 instead.
\<close>

theorem half_violin_ignores_vert:
  "half_violin_value i s v =
     (if v \<le> real i + 1 then real i + 1 else real i + 1 + s * (v - (real i + 1))) \<and>
   map snd (vertices (half_violin i s b)) = map (half_violin_value i s) (map snd (vertices b)) \<and>
   map fst (vertices (half_violin i s b)) = map fst (vertices b) \<and>
   map (violin_bodies example_axes) (violin_calls (fst
      (pyplot_cloud example_table ''x'' example_axes None (GoNone :: (nat, nat) group_order)
         False (ScDict [(''x'', 1 / 2)]) False KwNone KwNone)))
     = [[\<lparr>vertices = [(0, 1 / 2), (4, 3 / 2)], facecolor = ''C0''\<rparr>]] \<and>
   snd (pyplot_cloud example_table ''x'' example_axes None (GoNone :: (nat, nat) group_order)
          False (ScDict [(''x'', 1 / 2)]) False KwNone KwNone)
     = Inr [\<lparr>vertices = [(0, 1), (4, 5 / 4)], facecolor = ''C0''\<rparr>] \<and>
   map (violin_bodies example_axes) (violin_calls (fst
      (pyplot_cloud example_table ''x'' example_axes None (GoNone :: (nat, nat) group_order)
         False (ScDict [(''x'', 1 / 2)]) True KwNone KwNone)))
     = [[\<lparr>vertices = [(1 / 2, 0), (3 / 2, 4)], facecolor = ''C0''\<rparr>]] \<and>
   snd (pyplot_cloud example_table ''x'' example_axes None (GoNone :: (nat, nat) group_order)
          False (ScDict [(''x'', 1 / 2)]) True KwNone KwNone)
     = Inr [\<lparr>vertices = [(1 / 2, 1), (3 / 2, 5 / 2)], facecolor = ''C0''\<rparr>] \<and>
   snd (pyplot_raincloud example_uniform example_table ''x'' example_axes None
          (GoNone :: (nat, nat) group_order) False (ScDict [(''x'', 1 / 2)]) True KwNone KwNone)
     = Inr [\<lparr>vertices = [(1 / 2, 1), (3 / 2, 5 / 2)], facecolor = ''C0''\<rparr>] \<and>
   map (density_coordinate False) [(0, 1 / 2), (4, 3 / 2)] = [1 / 2, 3 / 2] \<and>
   map (density_coordinate False) [(0, 1), (4, 5 / 4)] = [1, 5 / 4] \<and>
   map (density_coordinate True) [(1 / 2, 0), (3 / 2, 4)] = [1 / 2, 3 / 2] \<and>
   map (density_coordinate True) [(1 / 2, 1), (3 / 2, 5 / 2)] = [1 / 2, 3 / 2] \<and>
   map (half_violin_value 0 (1 / 2)) [1 / 2, 3 / 2] = [1, 5 / 4]"
proof -
  have formula: "half_violin_value i s v =
     (if v \<le> real i + 1 then real i + 1 else real i + 1 + s * (v - (real i + 1)))"
    by (simp add: half_violin_value_def algebra_simps)
  have column1: "map snd (vertices (half_violin i s b))
      = map (half_violin_value i s) (map snd (vertices b))"
    by (simp add: half_violin_def comp_def case_prod_beta)
  have column0: "map fst (vertices (half_violin i s b)) = map fst (vertices b)"
    by (simp add: half_violin_def comp_def case_prod_beta)
  have drawn_h: "map (violin_bodies example_axes) (violin_calls (fst
      (pyplot_cloud example_table ''x'' example_axes None (GoNone :: (nat, nat) group_order)
         False (ScDict [(''x'', 1 / 2)]) False KwNone KwNone)))
     = [[\<lparr>vertices = [(0, 1 / 2), (4, 3 / 2)], facecolor = ''C0''\<rparr>]]"
    by code_simp
  have left_h: "snd (pyplot_cloud example_table ''x'' example_axes None
          (GoNone :: (nat, nat) group_order) False (ScDict [(''x'', 1 / 2)]) False KwNone KwNone)
     = Inr [\<lparr>vertices = [(0, 1), (4, 5 / 4)], facecolor = ''C0''\<rparr>]"
    by code_simp
  have drawn_v: "map (violin_bodies example_axes) (violin_calls (fst
      (pyplot_cloud example_table ''x'' example_axes None (GoNone :: (nat, nat) group_order)
         False (ScDict [(''x'', 1 / 2)]) True KwNone KwNone)))
     = [[\<lparr>vertices = [(1 / 2, 0), (3 / 2, 4)], facecolor = ''C0''\<rparr>]]"
    by code_simp
  have left_v: "snd (pyplot_cloud example_table ''x'' example_axes None
          (GoNone :: (nat, nat) group_order) False (ScDict [(''x'', 1 / 2)]) True KwNone KwNone)
     = Inr [\<lparr>vertices = [(1 / 2, 1), (3 / 2, 5 / 2)], facecolor = ''C0''\<rparr>]"
    by code_simp
  have left_vr: "snd (pyplot_raincloud example_uniform example_table ''x'' example_axes None
          (GoNone :: (nat, nat) group_order) False (ScDict [(''x'', 1 / 2)]) True KwNone KwNone)
     = Inr [\<lparr>vertices = [(1 / 2, 1), (3 / 2, 5 / 2)], facecolor = ''C0''\<rparr>]"
    by code_simp
  have coords: "map (density_coordinate False) [(0, 1 / 2), (4, 3 / 2)] = [1 / 2, 3 / 2]"
      "map (density_coordinate False) [(0, 1), (4, 5 / 4)] = [1, 5 / 4]"
      "map (density_coordinate True) [(1 / 2, 0), (3 / 2, 4)] = [1 / 2, 3 / 2]"
      "map (density_coordinate True) [(1 / 2, 1), (3 / 2, 5 / 2)] = [1 / 2, 3 / 2]"
      "map (half_violin_value 0 (1 / 2)) [1 / 2, 3 / 2] = [1, 5 / 4]"
    by (simp_all add: density_coordinate_def half_violin_value_def)
  show ?thesis
    by (intro conjI formula column1 column0 drawn_h left_h drawn_v left_v left_vr coords)
qed

section \<open>The defaults of the violin call\<close>

text \<open>
  Claim C1, evaluated on the ungrouped example with every optional argument left at
  its default. \<^verbatim>\<open>pyplot_cloud\<close> passes the documented defaults to \<^verbatim>\<open>ax.violinplot\<close>:
  \<^verbatim>\<open>showmeans\<close>, \<^verbatim>\<open>showmedians\<close> and \<^verbatim>\<open>showextrema\<close> false and \<^verbatim>\<open>widths\<close> 1.2.
  \<^verbatim>\<open>pyplot_raincloud\<close> passes none of the four, although its docstring lists the same
  defaults and its own dict branch applies them: the two calls differ.
\<close>

theorem raincloud_omits_violin_defaults:
  "map shown (violin_calls (fst
      (pyplot_cloud example_table ''x'' example_axes None (GoNone :: (nat, nat) group_order)
         False ScNone False KwNone KwNone)))
     = [[Some (KBool False), Some (KBool False), Some (KBool False), Some (KNum 1.2)]] \<and>
   map shown (violin_calls (fst
      (pyplot_raincloud example_uniform example_table ''x'' example_axes None
         (GoNone :: (nat, nat) group_order) False ScNone False KwNone KwNone)))
     = [[None, None, None, None]]"
  by code_simp

section \<open>The ordering modes on the example\<close>

text \<open>
  Claim C6. On the example table, without reversal: no \<^verbatim>\<open>group_order\<close> gives the labels
  b, a (order of first appearance); \<^verbatim>\<open>group_order\<close> equal to the group column's name
  gives a, b; the dict mapping a to 2 and b to 1 gives b, a; and each time the data
  lists stand at the positions of their labels (1, 2 for b and 3, 4, 5 for a).
\<close>

theorem ordering_modes_example:
  "extract_groups example_table ''x'' (Some ''g'') (GoNone :: (nat, nat) group_order) False
     = Inr ([''b'', ''a''], [[1, 2], [3, 4, 5]]) \<and>
   extract_groups example_table ''x'' (Some ''g'') (GoName ''g'' :: (nat, nat) group_order) False
     = Inr ([''a'', ''b''], [[3, 4, 5], [1, 2]]) \<and>
   extract_groups example_table ''x'' (Some ''g'') (GoDict [''a'' \<mapsto> 2 :: nat, ''b'' \<mapsto> 1]) False
     = Inr ([''b'', ''a''], [[1, 2], [3, 4, 5]])"
  by code_simp

section \<open>Validation of an explicit scale map\<close>

text \<open>
  Claim C4, as amended. If \<^verbatim>\<open>scale_clouds\<close> is a dict with an item whose value is
  outside [0, 1], both entry points fail without having made any drawing call; and
  whenever group extraction (the stage before) returns, the error is the
  out-of-bounds error carrying every item of the dict whose value is outside [0, 1],
  in the order of the dict.
\<close>

theorem out_of_bounds_rejected:
  assumes "kv \<in> set d" and "snd kv < 0 \<or> snd kv > 1"
  shows "fst (pyplot_cloud df col ax group_by go reverse (ScDict d) vert bk ck) = [] \<and>
         isl (snd (pyplot_cloud df col ax group_by go reverse (ScDict d) vert bk ck)) \<and>
         fst (pyplot_raincloud u df col ax group_by go reverse (ScDict d) vert bk ck) = [] \<and>
         isl (snd (pyplot_raincloud u df col ax group_by go reverse (ScDict d) vert bk ck)) \<and>
         (\<forall>ls ds. extract_groups df col group_by go reverse = Inr (ls, ds) \<longrightarrow>
            pyplot_cloud df col ax group_by go reverse (ScDict d) vert bk ck
              = ([], Inl (ValueError_out_of_bounds (filter (\<lambda>(k, v). v < 0 \<or> v > 1) d))) \<and>
            pyplot_raincloud u df col ax group_by go reverse (ScDict d) vert bk ck
              = ([], Inl (ValueError_out_of_bounds (filter (\<lambda>(k, v). v < 0 \<or> v > 1) d)))) \<and>
         kv \<in> set (filter (\<lambda>(k, v). v < 0 \<or> v > 1) d)"
proof (cases "extract_groups df col group_by go reverse")
  case (Inl e)
  show ?thesis
    using assms by (auto simp: entry_extract_error [OF Inl] Inl)
next
  case (Inr p)
  obtain ls ds where p: "p = (ls, ds)" by (cases p)
  have ex: "extract_groups df col group_by go reverse = Inr (ls, ds)" using Inr p by simp
  show ?thesis
    using assms entry_scalars_error [OF ex get_scalars_out_of_bounds [OF assms]]
    by (auto simp: ex)
qed

theorem out_of_bounds_rejected_witness:
  "(''a'', 1.2) \<in> set [(''a'', 1.2), (''b'', 0.5), (''c'', - 1 :: real)] \<and>
   extract_groups example_table ''x'' (Some ''g'') (GoNone :: (nat, nat) group_order) False
     = Inr ([''b'', ''a''], [[1, 2], [3, 4, 5]]) \<and>
   pyplot_cloud example_table ''x'' example_axes (Some ''g'') (GoNone :: (nat, nat) group_order) False
       (ScDict [(''a'', 1.2), (''b'', 0.5), (''c'', - 1)]) False KwNone KwNone
     = ([], Inl (ValueError_out_of_bounds [(''a'', 1.2), (''c'', - 1)])) \<and>
   pyplot_raincloud example_uniform example_table ''x'' example_axes (Some ''g'')
       (GoNone :: (nat, nat) group_order) False
       (ScDict [(''a'', 1.2), (''b'', 0.5), (''c'', - 1)]) False KwNone KwNone
     = ([], Inl (ValueError_out_of_bounds [(''a'', 1.2), (''c'', - 1)]))"
proof -
  have ex: "extract_groups example_table ''x'' (Some ''g'') (GoNone :: (nat, nat) group_order) False
     = Inr ([''b'', ''a''], [[1, 2], [3, 4, 5]])"
    by code_simp
  show ?thesis
    using out_of_bounds_rejected [of "(''a'', 1.2)" "[(''a'', 1.2), (''b'', 0.5), (''c'', - 1)]"
        example_table "''x''" example_axes "Some ''g''" "GoNone :: (nat, nat) group_order" False False
        KwNone KwNone example_uniform] ex
    by simp
qed

text \<open>
  The claim as first stated fails where an earlier stage raises: an ordering dict that
  lacks the label b stops the call with a \<open>KeyError\<close> before the scale map is looked at.
\<close>

theorem out_of_bounds_preempted:
  "snd (pyplot_cloud example_table ''x'' example_axes (Some ''g'') (GoDict [''a'' \<mapsto> 1 :: nat])
          False (ScDict [(''a'', 1.2)]) False KwNone KwNone) = Inl (KeyError ''b'') \<and>
   snd (pyplot_cloud example_table ''x'' example_axes (Some ''g'') (GoDict [''a'' \<mapsto> 1 :: nat])
          False (ScDict [(''a'', 1.2)]) False KwNone KwNone)
     \<noteq> Inl (ValueError_out_of_bounds [(''a'', 1.2)])"
  by code_simp

text \<open>
  Claim C8. Every item of the dict is validated, also one whose key is no label: if
  group extraction returns labels among which \<open>k\<close> does not occur and the dict maps \<open>k\<close>
  to a value outside [0, 1], both entry points fail with the out-of-bounds error, which
  carries that item.
\<close>

theorem unused_key_validated:
  assumes "extract_groups df col group_by go reverse = Inr (ls, ds)"
      and "(k, v) \<in> set d" and "v < 0 \<or> v > 1" and "k \<notin> set ls"
  shows "pyplot_cloud df col ax group_by go reverse (ScDict d) vert bk ck
           = ([], Inl (ValueError_out_of_bounds (filter (\<lambda>(k, v). v < 0 \<or> v > 1) d))) \<and>
         pyplot_raincloud u df col ax group_by go reverse (ScDict d) vert bk ck
           = ([], Inl (ValueError_out_of_bounds (filter (\<lambda>(k, v). v < 0 \<or> v > 1) d))) \<and>
         (k, v) \<in> set (filter (\<lambda>(k, v). v < 0 \<or> v > 1) d)"
proof -
  have "get_scalars (ScDict d) ls ds
      = Inl (ValueError_out_of_bounds (filter (\<lambda>(k, v). v < 0 \<or> v > 1) d))"
    using get_scalars_out_of_bounds [of "(k, v)" d] assms(2,3) by simp
  from entry_scalars_error [OF assms(1) this] assms(2,3) show ?thesis by simp
qed

theorem unused_key_validated_witness:
  "extract_groups example_table ''x'' (Some ''g'') (GoNone :: (nat, nat) group_order) False
     = Inr ([''b'', ''a''], [[1, 2], [3, 4, 5]]) \<and>
   ''z'' \<notin> set [''b'', ''a''] \<and>
   pyplot_cloud example_table ''x'' example_axes (Some ''g'') (GoNone :: (nat, nat) group_order) False
       (ScDict [(''a'', 0.5), (''b'', 1), (''z'', 1.5)]) False KwNone KwNone
     = ([], Inl (ValueError_out_of_bounds [(''z'', 1.5)])) \<and>
   pyplot_raincloud example_uniform example_table ''x'' example_axes (Some ''g'')
       (GoNone :: (nat, nat) group_order) False
       (ScDict [(''a'', 0.5), (''b'', 1), (''z'', 1.5)]) False KwNone KwNone
     = ([], Inl (ValueError_out_of_bounds [(''z'', 1.5)]))"
proof -
  have ex: "extract_groups example_table ''x'' (Some ''g'') (GoNone :: (nat, nat) group_order) False
     = Inr ([''b'', ''a''], [[1, 2], [3, 4, 5]])"
    by code_simp
  show ?thesis
    using unused_key_validated [OF ex, of "''z''" "1.5" "[(''a'', 0.5), (''b'', 1), (''z'', 1.5)]"
        example_axes False KwNone KwNone example_uniform] ex
    by simp
qed

text \<open>
  Claim C9. If group extraction returns labels, every value of the dict lies in
  [0, 1] and some label is no key of the dict, both entry points fail, before any
  drawing call, with the \<open>KeyError\<close> of the first such label.
\<close>

theorem missing_label_KeyError:
  assumes "extract_groups df col group_by go reverse = Inr (ls, ds)"
      and "\<forall>kv \<in> set d. 0 \<le> snd kv \<and> snd kv \<le> 1"
      and "l \<in> set ls" and "map_of d l = None"
  shows "\<exists>l'. List.find (\<lambda>l. map_of d l = None) ls = Some l' \<and>
           pyplot_cloud df col ax group_by go reverse (ScDict d) vert bk ck
             = ([], Inl (KeyError l')) \<and>
           pyplot_raincloud u df col ax group_by go reverse (ScDict d) vert bk ck
             = ([], Inl (KeyError l'))"
proof -
  have "filter out_of_bounds d = []"
    using assms(2) by (auto simp: out_of_bounds_def filter_empty_conv)
  then have gs: "get_scalars (ScDict d) ls ds = mapE (subscript (map_of d)) ls"
    by (simp add: get_scalars_def)
  obtain l' where l': "List.find (\<lambda>l. map_of d l = None) ls = Some l'"
    using assms(3,4) by (cases "List.find (\<lambda>l. map_of d l = None) ls") (auto simp: find_None_iff)
  have "get_scalars (ScDict d) ls ds = Inl (KeyError l')"
    by (simp add: gs mapE_subscript_find l')
  from entry_scalars_error [OF assms(1) this] l' show ?thesis by blast
qed

theorem missing_label_KeyError_witness:
  "extract_groups example_table ''x'' (Some ''g'') (GoNone :: (nat, nat) group_order) False
     = Inr ([''b'', ''a''], [[1, 2], [3, 4, 5]]) \<and>
   list_all (\<lambda>kv. 0 \<le> snd kv \<and> snd kv \<le> 1) [(''b'', 0.5 :: real)] \<and>
   map_of [(''b'', 0.5 :: real)] ''a'' = None \<and>
   pyplot_cloud example_table ''x'' example_axes (Some ''g'') (GoNone :: (nat, nat) group_order) False
       (ScDict [(''b'', 0.5)]) False KwNone KwNone
     = ([], Inl (KeyError ''a'')) \<and>
   pyplot_raincloud example_uniform example_table ''x'' example_axes (Some ''g'')
       (GoNone :: (nat, nat) group_order) False (ScDict [(''b'', 0.5)]) False KwNone KwNone
     = ([], Inl (KeyError ''a''))"
proof -
  have ex: "extract_groups example_table ''x'' (Some ''g'') (GoNone :: (nat, nat) group_order) False
     = Inr ([''b'', ''a''], [[1, 2], [3, 4, 5]])"
    by code_simp
  show ?thesis
    using missing_label_KeyError [OF ex, of "[(''b'', 0.5)]" "''a''"
        example_axes False KwNone KwNone example_uniform] ex
    by simp
qed

section \<open>Alignment of labels, data and scalars\<close>




section \<open>Reversal of the group order\<close>

text \<open>
  Claim C2, as amended. For a table with a group column on which the call without
  reversal returns: when no ordering is given, \<^verbatim>\<open>reverse\<close> is not consulted and the call
  with \<^verbatim>\<open>reverse = True\<close> returns the same labels and data lists; in the alphabetic
  mode, and in the dict and callable modes when the sort keys of the groups are
  pairwise different, it returns exactly the reversed label sequence and the reversed
  data-list sequence.
\<close>

theorem reverse_order:
  assumes ok: "extract_groups df col (Some g) go False = Inr (ls, ds)"
      and dk: "distinct_keys df col g go"
  shows "extract_groups df col (Some g) go True =
           (case go of GoNone \<Rightarrow> Inr (ls, ds) | _ \<Rightarrow> Inr (rev ls, rev ds))"
proof (cases go)
  case GoNone
  then show ?thesis using ok by (simp add: extract_groups_def)
next
  case (GoDict m)
  then obtain ss pd where ss: "group_series df col g = Inr ss"
      and pd: "sorted_key (\<lambda>el. subscript m (name el)) False ss = Inr pd"
      and r: "ls = map name pd" "ds = map vals pd"
    using ok by (auto simp: extract_groups_def split: sum.splits)
  have "distinct (map (\<lambda>el. subscript m (name el)) ss)"
    using dk by (simp add: distinct_keys_def ss GoDict)
  from sorted_key_reverse [OF this pd] show ?thesis
    by (simp add: extract_groups_def GoDict ss r rev_map)
next
  case (GoName n)
  then obtain pd where n: "n = g" and pd: "group_dict df col g = Inr pd"
      and ls: "ls = sort_key (\<lambda>l. l) (map fst pd)"
      and m: "mapE (subscript (map_of pd)) ls = Inr ds"
    using ok by (auto simp: extract_groups_def Let_def sorted_py_def split: sum.splits if_splits)
  show ?thesis
    using mapE_rev [OF m]
    by (simp add: extract_groups_def GoName n pd sorted_py_def sort_rev ls [symmetric])
next
  case (GoCallable f)
  then obtain ss pd where ss: "group_series df col g = Inr ss"
      and pd: "sorted_key f False ss = Inr pd"
      and r: "ls = map name pd" "ds = map vals pd"
    using ok by (auto simp: extract_groups_def split: sum.splits)
  have "distinct (map f ss)"
    using dk by (simp add: distinct_keys_def ss GoCallable)
  from sorted_key_reverse [OF this pd] show ?thesis
    by (simp add: extract_groups_def GoCallable ss r rev_map)
next
  case (GoOther v)
  then show ?thesis using ok by (simp add: extract_groups_def)
qed

theorem reverse_order_witness:
  "extract_groups example_table ''x'' (Some ''g'') (GoName ''g'' :: (nat, nat) group_order) False
     = Inr ([''a'', ''b''], [[3, 4, 5], [1, 2]]) \<and>
   extract_groups example_table ''x'' (Some ''g'') (GoName ''g'' :: (nat, nat) group_order) True
     = Inr ([''b'', ''a''], [[1, 2], [3, 4, 5]]) \<and>
   extract_groups example_table ''x'' (Some ''g'') (GoDict [''a'' \<mapsto> 2 :: nat, ''b'' \<mapsto> 1]) False
     = Inr ([''b'', ''a''], [[1, 2], [3, 4, 5]]) \<and>
   distinct_keys example_table ''x'' ''g'' (GoDict [''a'' \<mapsto> 2 :: nat, ''b'' \<mapsto> 1]) \<and>
   extract_groups example_table ''x'' (Some ''g'') (GoDict [''a'' \<mapsto> 2 :: nat, ''b'' \<mapsto> 1]) True
     = Inr ([''a'', ''b''], [[3, 4, 5], [1, 2]])"
proof -
  have n: "extract_groups example_table ''x'' (Some ''g'') (GoName ''g'' :: (nat, nat) group_order) False
     = Inr ([''a'', ''b''], [[3, 4, 5], [1, 2]])"
    by code_simp
  have dn: "distinct_keys example_table ''x'' ''g'' (GoName ''g'' :: (nat, nat) group_order)"
    by code_simp
  have d: "extract_groups example_table ''x'' (Some ''g'')
      (GoDict [''a'' \<mapsto> 2 :: nat, ''b'' \<mapsto> 1]) False
     = Inr ([''b'', ''a''], [[1, 2], [3, 4, 5]])"
    by code_simp
  have dd: "distinct_keys example_table ''x'' ''g'' (GoDict [''a'' \<mapsto> 2 :: nat, ''b'' \<mapsto> 1])"
    by code_simp
  show ?thesis
    using reverse_order [OF n dn] reverse_order [OF d dd] n d dd by simp
qed

text \<open>
  The claim as first stated fails in two ways. Without an ordering the labels come
  out as b, a whatever \<^verbatim>\<open>reverse\<close> is; and groups whose keys are equal keep their order
  of first appearance in both directions, since the sort is stable under reversal.
\<close>

theorem reverse_not_uniform:
  "extract_groups example_table ''x'' (Some ''g'') (GoNone :: (nat, nat) group_order) False
     = Inr ([''b'', ''a''], [[1, 2], [3, 4, 5]]) \<and>
   extract_groups example_table ''x'' (Some ''g'') (GoNone :: (nat, nat) group_order) True
     = Inr ([''b'', ''a''], [[1, 2], [3, 4, 5]]) \<and>
   extract_groups example_table ''x'' (Some ''g'') (GoDict [''a'' \<mapsto> 1 :: nat, ''b'' \<mapsto> 1]) False
     = Inr ([''b'', ''a''], [[1, 2], [3, 4, 5]]) \<and>
   extract_groups example_table ''x'' (Some ''g'') (GoDict [''a'' \<mapsto> 1 :: nat, ''b'' \<mapsto> 1]) True
     = Inr ([''b'', ''a''], [[1, 2], [3, 4, 5]]) \<and>
   rev [''b'', ''a''] \<noteq> [''b'', ''a'']"
  by code_simp

end
